theory Spec2Isabelle
  imports Complex_Main "HOL-Library.Log_Nat"
begin

section \<open>Errors\<close>

text \<open>
  Every exception the modelled code can raise is a value of \<open>error\<close>; a function that can
  raise returns \<open>error + 'a\<close>, with \<open>Inl\<close> for the exception.  \<open>DecimalInvalidOperation\<close>,
  \<open>DecimalDivisionByZero\<close> and \<open>DecimalOverflow\<close> are the signals of Python's \<open>decimal\<close>
  module that the default context traps; \<open>ValidationError\<close> and \<open>OperationError\<close> are the
  application's own exception classes (\<open>app.exceptions\<close>).
\<close>

datatype error =
    TypeError
  | ValueError
  | ZeroDivisionError
  | OverflowError
  | DecimalInvalidOperation
  | DecimalDivisionByZero
  | DecimalOverflow
  | ValidationError
  | OperationError

section \<open>Strings\<close>

text \<open>
  \<open>str.lower()\<close> on ASCII text: each of the letters \<open>A\<close>..\<open>Z\<close> moves to its lower-case
  letter, every other character stays.
\<close>

definition lower_char :: "char \<Rightarrow> char" where
  "lower_char c =
     (case map_of (zip ''ABCDEFGHIJKLMNOPQRSTUVWXYZ'' ''abcdefghijklmnopqrstuvwxyz'') c of
        Some l \<Rightarrow> l
      | None \<Rightarrow> c)"

definition lower :: "string \<Rightarrow> string" where
  "lower s = map lower_char s"

section \<open>Python's Decimal\<close>

text \<open>
  A \<open>Decimal\<close> is a sign, a coefficient and an exponent (value \<open>\<plusminus> c * 10 ^ e\<close>), or an
  infinity, or a quiet or signalling NaN with a payload.  The sign is \<open>True\<close> for negative.
\<close>

datatype decimal =
    Finite bool nat int
  | Infinity bool
  | NaN bool nat
  | sNaN bool nat

text \<open>
  The arithmetic context: precision and exponent range.  Rounding is \<open>ROUND_HALF_EVEN\<close>,
  \<open>clamp\<close> is 0 and the trapped signals are \<open>InvalidOperation\<close>, \<open>DivisionByZero\<close> and
  \<open>Overflow\<close>, as in the default context; \<open>operations.py\<close> never changes the context.
\<close>

record dec_context =
  prec :: nat
  Emin :: int
  Emax :: int

definition default_context :: dec_context where
  "default_context = \<lparr>prec = 28, Emin = - 999999, Emax = 999999\<rparr>"

definition Etiny :: "dec_context \<Rightarrow> int" where
  "Etiny ctx = Emin ctx - int (prec ctx) + 1"

definition Etop :: "dec_context \<Rightarrow> int" where
  "Etop ctx = Emax ctx - int (prec ctx) + 1"

text \<open>The number of decimal digits of a coefficient: \<open>len(str(c))\<close>, which is 1 for 0.\<close>

definition ndigits :: "nat \<Rightarrow> nat" where
  "ndigits c = (if c = 0 then 1 else floorlog 10 c)"

text \<open>
  Dropping the last \<open>k\<close> digits of a coefficient, rounding half to even: the value of
  \<open>c / 10 ^ k\<close> rounded to the nearest integer, a tie going to the even one.
\<close>

definition round_half_even :: "nat \<Rightarrow> nat \<Rightarrow> nat" where
  "round_half_even c k =
     (let q = c div 10 ^ k; r = c mod 10 ^ k
      in if 2 * r > 10 ^ k \<or> (2 * r = 10 ^ k \<and> odd q) then q + 1 else q)"

text \<open>
  \<open>Decimal._fix\<close>: round a result to the context.  A zero gets its exponent clamped; a
  result whose adjusted exponent exceeds \<open>Emax\<close> raises \<open>Overflow\<close>; a coefficient with more
  than \<open>prec\<close> digits, or an exponent below \<open>Etiny\<close>, is rounded.
\<close>

definition fix_nan :: "dec_context \<Rightarrow> bool \<Rightarrow> nat \<Rightarrow> decimal" where
  "fix_nan ctx s p = NaN s (p mod 10 ^ prec ctx)"

fun dec_fix :: "dec_context \<Rightarrow> decimal \<Rightarrow> error + decimal" where
  "dec_fix ctx (Finite s c e) =
     (if c = 0 then Inr (Finite s 0 (min (max e (Etiny ctx)) (Emax ctx)))
      else
        let exp_min = int (ndigits c) + e - int (prec ctx) in
        if exp_min > Etop ctx then Inl DecimalOverflow
        else
          let exp_min = (if exp_min < Etiny ctx then Etiny ctx else exp_min) in
          if e < exp_min then
            let q = round_half_even c (nat (exp_min - e));
                coeff = (if ndigits q > prec ctx then q div 10 else q);
                exp_min = (if ndigits q > prec ctx then exp_min + 1 else exp_min)
            in if exp_min > Etop ctx then Inl DecimalOverflow
               else Inr (Finite s coeff exp_min)
          else Inr (Finite s c e))"
| "dec_fix ctx (Infinity s) = Inr (Infinity s)"
| "dec_fix ctx (NaN s p) = Inr (fix_nan ctx s p)"
| "dec_fix ctx (sNaN s p) = Inr (fix_nan ctx s p)"

text \<open>
  \<open>Decimal._check_nans\<close>: a signalling NaN operand raises \<open>InvalidOperation\<close>; otherwise the
  first quiet NaN operand is the result; \<open>None\<close> when neither operand is a NaN.
\<close>

fun is_snan :: "decimal \<Rightarrow> bool" where
  "is_snan (sNaN s p) = True"
| "is_snan d = False"

fun is_qnan :: "decimal \<Rightarrow> bool" where
  "is_qnan (NaN s p) = True"
| "is_qnan d = False"

fun is_infinite :: "decimal \<Rightarrow> bool" where
  "is_infinite (Infinity s) = True"
| "is_infinite d = False"

fun is_zero :: "decimal \<Rightarrow> bool" where
  "is_zero (Finite s c e) = (c = 0)"
| "is_zero d = False"

fun sign_of :: "decimal \<Rightarrow> bool" where
  "sign_of (Finite s c e) = s"
| "sign_of (Infinity s) = s"
| "sign_of (NaN s p) = s"
| "sign_of (sNaN s p) = s"

definition check_nans :: "dec_context \<Rightarrow> decimal \<Rightarrow> decimal \<Rightarrow> (error + decimal) option" where
  "check_nans ctx a b =
     (if is_snan a \<or> is_snan b then Some (Inl DecimalInvalidOperation)
      else if is_qnan a then Some (dec_fix ctx a)
      else if is_qnan b then Some (dec_fix ctx b)
      else None)"

fun copy_negate :: "decimal \<Rightarrow> decimal" where
  "copy_negate (Finite s c e) = Finite (\<not> s) c e"
| "copy_negate (Infinity s) = Infinity (\<not> s)"
| "copy_negate (NaN s p) = NaN (\<not> s) p"
| "copy_negate (sNaN s p) = sNaN (\<not> s) p"

text \<open>The signed coefficient of a finite decimal.\<close>

definition signed :: "bool \<Rightarrow> nat \<Rightarrow> int" where
  "signed s c = (if s then - int c else int c)"

text \<open>
  \<open>Decimal.__add__\<close>: the exact sum at the smaller of the two exponents, then \<open>_fix\<close>.  A
  zero sum is negative only when both operands are negative.
\<close>

fun dec_add :: "dec_context \<Rightarrow> decimal \<Rightarrow> decimal \<Rightarrow> error + decimal" where
  "dec_add ctx (Finite s1 c1 e1) (Finite s2 c2 e2) =
     (let e = min e1 e2;
          v = signed s1 c1 * 10 ^ nat (e1 - e) + signed s2 c2 * 10 ^ nat (e2 - e);
          s = (if v = 0 then s1 \<and> s2 else v < 0)
      in dec_fix ctx (Finite s (nat \<bar>v\<bar>) e))"
| "dec_add ctx a b =
     (case check_nans ctx a b of
        Some r \<Rightarrow> r
      | None \<Rightarrow>
          if is_infinite a then
            (if sign_of a \<noteq> sign_of b \<and> is_infinite b then Inl DecimalInvalidOperation
             else Inr a)
          else Inr b)"

text \<open>\<open>Decimal.__sub__\<close>: NaNs first, then the sum with the negated second operand.\<close>

definition dec_sub :: "dec_context \<Rightarrow> decimal \<Rightarrow> decimal \<Rightarrow> error + decimal" where
  "dec_sub ctx a b =
     (case check_nans ctx a b of
        Some r \<Rightarrow> r
      | None \<Rightarrow> dec_add ctx a (copy_negate b))"

text \<open>\<open>Decimal.__mul__\<close>: the exact product, then \<open>_fix\<close>; infinity times zero is invalid.\<close>

fun dec_mul :: "dec_context \<Rightarrow> decimal \<Rightarrow> decimal \<Rightarrow> error + decimal" where
  "dec_mul ctx (Finite s1 c1 e1) (Finite s2 c2 e2) =
     dec_fix ctx (Finite (s1 \<noteq> s2) (c1 * c2) (e1 + e2))"
| "dec_mul ctx a b =
     (case check_nans ctx a b of
        Some r \<Rightarrow> r
      | None \<Rightarrow>
          if is_infinite a then
            (if is_zero b then Inl DecimalInvalidOperation
             else Inr (Infinity (sign_of a \<noteq> sign_of b)))
          else
            (if is_zero a then Inl DecimalInvalidOperation
             else Inr (Infinity (sign_of a \<noteq> sign_of b))))"

text \<open>
  The loop of \<open>Decimal.__truediv__\<close> that removes trailing zeros from an exact quotient
  while its exponent is below the ideal exponent.
\<close>

function strip_zeros :: "nat \<Rightarrow> int \<Rightarrow> int \<Rightarrow> nat \<times> int" where
  "strip_zeros coeff ex ideal_exp =
     (if ex < ideal_exp \<and> coeff mod 10 = 0 then strip_zeros (coeff div 10) (ex + 1) ideal_exp
      else (coeff, ex))"
  by pat_completeness auto
termination
  by (relation "measure (\<lambda>(coeff, ex, ideal_exp). nat (ideal_exp - ex))") auto

text \<open>
  \<open>Decimal.__truediv__\<close>: a zero divisor raises \<open>DivisionByZero\<close> (\<open>InvalidOperation\<close> for
  0/0); otherwise the quotient is computed to \<open>prec + 1\<close> digits or more, an inexact one
  is marked in its last digit, and \<open>_fix\<close> rounds it.
\<close>

fun dec_div :: "dec_context \<Rightarrow> decimal \<Rightarrow> decimal \<Rightarrow> error + decimal" where
  "dec_div ctx (Finite s1 c1 e1) (Finite s2 c2 e2) =
     (if c2 = 0 then (if c1 = 0 then Inl DecimalInvalidOperation else Inl DecimalDivisionByZero)
      else if c1 = 0 then dec_fix ctx (Finite (s1 \<noteq> s2) 0 (e1 - e2))
      else
        let shift = int (ndigits c2) - int (ndigits c1) + int (prec ctx) + 1;
            ex = e1 - e2 - shift;
            n = (if shift \<ge> 0 then c1 * 10 ^ nat shift else c1);
            d = (if shift \<ge> 0 then c2 else c2 * 10 ^ nat (- shift));
            coeff = n div d;
            remainder = n mod d
        in if remainder \<noteq> 0
           then dec_fix ctx (Finite (s1 \<noteq> s2) (if coeff mod 5 = 0 then coeff + 1 else coeff) ex)
           else (case strip_zeros coeff ex (e1 - e2) of
                   (coeff', ex') \<Rightarrow> dec_fix ctx (Finite (s1 \<noteq> s2) coeff' ex')))"
| "dec_div ctx a b =
     (case check_nans ctx a b of
        Some r \<Rightarrow> r
      | None \<Rightarrow>
          if is_infinite a \<and> is_infinite b then Inl DecimalInvalidOperation
          else if is_infinite a then Inr (Infinity (sign_of a \<noteq> sign_of b))
          else Inr (Finite (sign_of a \<noteq> sign_of b) 0 (Etiny ctx)))"

text \<open>The value of a finite decimal, as a rational number.\<close>

definition val :: "decimal \<Rightarrow> rat" where
  "val d = (case d of Finite s c e \<Rightarrow> of_int (signed s c) * 10 powi e | _ \<Rightarrow> 0)"

fun is_finite :: "decimal \<Rightarrow> bool" where
  "is_finite (Finite s c e) = True"
| "is_finite d = False"

section \<open>Python's float\<close>

text \<open>
  A \<open>float\<close> is an IEEE 754 binary64 number: a sign, a mantissa \<open>m < 2 ^ 53\<close> and an
  exponent \<open>e\<close> between \<open>-1074\<close> and \<open>971\<close> (value \<open>\<plusminus> m * 2 ^ e\<close>), or an infinity, or
  a NaN.
\<close>

datatype pyfloat =
    FFinite bool nat int
  | FInf bool
  | FNaN

text \<open>The nearest integer to \<open>n / d\<close>, a tie going to the even one.\<close>

definition rne :: "nat \<Rightarrow> nat \<Rightarrow> nat" where
  "rne n d =
     (let q = n div d; r = n mod d
      in if 2 * r > d \<or> (2 * r = d \<and> odd q) then q + 1 else q)"

text \<open>
  The binary64 number nearest to the rational \<open>p / q\<close> (\<open>q > 0\<close>), as the C library's
  \<open>strtod\<close> and the hardware's division give it: 53 significant bits, gradual underflow
  below \<open>2 ^ -1022\<close>, infinity above the largest finite number.
\<close>

definition floor_log2 :: "nat \<Rightarrow> nat \<Rightarrow> int" where
  "floor_log2 p q =
     (let d = int (floorlog 2 p) - int (floorlog 2 q)
      in if (if d \<ge> 0 then p \<ge> q * 2 ^ nat d else p * 2 ^ nat (- d) \<ge> q) then d else d - 1)"

definition round_to_double :: "bool \<Rightarrow> nat \<Rightarrow> nat \<Rightarrow> pyfloat" where
  "round_to_double s p q =
     (if p = 0 then FFinite s 0 (- 1074)
      else
        let e = max (floor_log2 p q - 52) (- 1074);
            m = (if e \<ge> 0 then rne p (q * 2 ^ nat e) else rne (p * 2 ^ nat (- e)) q);
            e' = (if m = 2 ^ 53 then e + 1 else e);
            m' = (if m = 2 ^ 53 then 2 ^ 52 else m)
        in if e' > 971 then FInf s else FFinite s m' e')"

text \<open>
  \<open>float(d)\<close> for a Decimal \<open>d\<close> (\<open>Decimal.__float__\<close>): a signalling NaN raises
  \<open>ValueError\<close>; every other value converts, a finite one to the nearest binary64 number.
\<close>

fun float_of_decimal :: "decimal \<Rightarrow> error + pyfloat" where
  "float_of_decimal (sNaN s p) = Inl ValueError"
| "float_of_decimal (NaN s p) = Inr FNaN"
| "float_of_decimal (Infinity s) = Inr (FInf s)"
| "float_of_decimal (Finite s c e) =
     Inr (if e \<ge> 0 then round_to_double s (c * 10 ^ nat e) 1
          else round_to_double s c (10 ^ nat (- e)))"

text \<open>
  \<open>1 / x\<close> for a float \<open>x\<close>: a zero divisor raises \<open>ZeroDivisionError\<close>; the quotient of a
  finite nonzero divisor is rounded to the nearest binary64 number.
\<close>

fun float_reciprocal :: "pyfloat \<Rightarrow> error + pyfloat" where
  "float_reciprocal FNaN = Inr FNaN"
| "float_reciprocal (FInf s) = Inr (FFinite s 0 (- 1074))"
| "float_reciprocal (FFinite s m e) =
     (if m = 0 then Inl ZeroDivisionError
      else Inr (if e \<ge> 0 then round_to_double s 1 (m * 2 ^ nat e)
                else round_to_double s (2 ^ nat (- e)) m))"

text \<open>Tests on a finite float \<open>m * 2 ^ e\<close>: an integer, an odd integer, equal to 1, above 1.\<close>

definition is_integral :: "nat \<Rightarrow> int \<Rightarrow> bool" where
  "is_integral m e = (e \<ge> 0 \<or> m mod 2 ^ nat (- e) = 0)"

definition is_odd_integer :: "nat \<Rightarrow> int \<Rightarrow> bool" where
  "is_odd_integer m e =
     (if e > 0 then False
      else m mod 2 ^ nat (- e) = 0 \<and> odd (m div 2 ^ nat (- e)))"

definition is_one :: "nat \<Rightarrow> int \<Rightarrow> bool" where
  "is_one m e = (if e \<ge> 0 then m * 2 ^ nat e = 1 else m = 2 ^ nat (- e))"

definition above_one :: "nat \<Rightarrow> int \<Rightarrow> bool" where
  "above_one m e = (if e \<ge> 0 then m * 2 ^ nat e > 1 else m > 2 ^ nat (- e))"

fun float_negate :: "pyfloat \<Rightarrow> pyfloat" where
  "float_negate (FFinite s m e) = FFinite (\<not> s) m e"
| "float_negate (FInf s) = FInf (\<not> s)"
| "float_negate FNaN = FNaN"

text \<open>
  What the interpreter takes from outside the language: the decimal context, the C library's
  \<open>pow\<close> on a positive finite base other than 1 and a finite nonzero exponent (with the
  \<open>OverflowError\<close> or \<open>ValueError\<close> that a set \<open>errno\<close> becomes), and whether complex
  exponentiation of a negative base raises (\<open>None\<close> when it returns a complex number).
\<close>

record runtime =
  ctx :: dec_context
  libm_pow :: "pyfloat \<Rightarrow> pyfloat \<Rightarrow> error + pyfloat"
  complex_pow :: "pyfloat \<Rightarrow> pyfloat \<Rightarrow> error option"

text \<open>The result of \<open>pow(x, y)\<close> on two floats is a float or a complex number.\<close>

datatype pow_result = PFloat pyfloat | PComplex

text \<open>
  \<open>float_pow\<close>, the interpreter's \<open>pow(x, y)\<close> on floats.  The special cases are decided
  before the C library is called, in this order: a zero exponent gives 1; a NaN base gives
  NaN; a NaN exponent gives NaN unless the base is 1; an infinite exponent; an infinite
  base; a zero base (\<open>ZeroDivisionError\<close> for a negative exponent); a negative base with a
  fractional exponent goes to complex exponentiation; a base of 1 or -1.
\<close>

fun float_pow :: "runtime \<Rightarrow> pyfloat \<Rightarrow> pyfloat \<Rightarrow> error + pow_result" where
  "float_pow rt iv (FFinite ws wm we) =
     (if wm = 0 then Inr (PFloat (FFinite False (2 ^ 52) (- 52)))
      else case iv of
        FNaN \<Rightarrow> Inr (PFloat FNaN)
      | FInf vs \<Rightarrow>
          (if \<not> ws then Inr (PFloat (if is_odd_integer wm we then FInf vs else FInf False))
           else Inr (PFloat (FFinite (is_odd_integer wm we \<and> vs) 0 (- 1074))))
      | FFinite vs vm ve \<Rightarrow>
          if vm = 0 then
            (if ws then Inl ZeroDivisionError
             else Inr (PFloat (if is_odd_integer wm we then iv else FFinite False 0 (- 1074))))
          else if vs \<and> \<not> is_integral wm we then
            (case complex_pow rt iv (FFinite ws wm we) of
               Some err \<Rightarrow> Inl err
             | None \<Rightarrow> Inr PComplex)
          else
            let negate_result = (vs \<and> is_odd_integer wm we) in
            if is_one vm ve then Inr (PFloat (FFinite negate_result (2 ^ 52) (- 52)))
            else (case libm_pow rt (FFinite False vm ve) (FFinite ws wm we) of
                    Inl err \<Rightarrow> Inl err
                  | Inr ix \<Rightarrow> Inr (PFloat (if negate_result then float_negate ix else ix))))"
| "float_pow rt iv FNaN =
     (case iv of
        FNaN \<Rightarrow> Inr (PFloat FNaN)
      | FInf vs \<Rightarrow> Inr (PFloat FNaN)
      | FFinite vs vm ve \<Rightarrow>
          Inr (PFloat (if \<not> vs \<and> is_one vm ve then FFinite False (2 ^ 52) (- 52) else FNaN)))"
| "float_pow rt iv (FInf ws) =
     (case iv of
        FNaN \<Rightarrow> Inr (PFloat FNaN)
      | FInf vs \<Rightarrow> Inr (PFloat (if \<not> ws then FInf False else FFinite False 0 (- 1074)))
      | FFinite vs vm ve \<Rightarrow>
          if is_one vm ve then Inr (PFloat (FFinite False (2 ^ 52) (- 52)))
          else if (\<not> ws) = above_one vm ve then Inr (PFloat (FInf False))
          else Inr (PFloat (FFinite False 0 (- 1074))))"

text \<open>
  Halving a mantissa while it is even and the exponent is negative: the lowest terms of
  \<open>m / 2 ^ k\<close>, as \<open>float.as_integer_ratio\<close> gives them.
\<close>

function lowest_terms :: "nat \<Rightarrow> nat \<Rightarrow> nat \<times> nat" where
  "lowest_terms m k = (if 0 < k \<and> even m then lowest_terms (m div 2) (k - 1) else (m, k))"
  by pat_completeness auto
termination
  by (relation "measure (\<lambda>(m, k). k)") auto

text \<open>
  \<open>Decimal(x)\<close> for the result of \<open>pow\<close>: a float converts exactly; a complex number raises
  \<open>TypeError\<close>.
\<close>

fun decimal_of_float :: "pyfloat \<Rightarrow> decimal" where
  "decimal_of_float FNaN = NaN False 0"
| "decimal_of_float (FInf s) = Infinity s"
| "decimal_of_float (FFinite s m e) =
     (if m = 0 then Finite s 0 0
      else if e \<ge> 0 then Finite s (m * 2 ^ nat e) 0
      else case lowest_terms m (nat (- e)) of (n, k) \<Rightarrow> Finite s (n * 5 ^ k) (- int k))"

fun decimal_of_pow :: "pow_result \<Rightarrow> error + decimal" where
  "decimal_of_pow (PFloat x) = Inr (decimal_of_float x)"
| "decimal_of_pow PComplex = Inl TypeError"

section \<open>Operation classes (\<open>app/operations.py\<close>)\<close>

text \<open>
  The classes that inherit from \<open>Operation\<close>: the abstract base itself
  (\<open>issubclass(Operation, Operation)\<close> is true), its six subclasses in \<open>operations.py\<close>, and
  a subclass defined by a user of the factory.  A user's class is given by its name, by its
  truth value as an object (true unless its metaclass says otherwise), by the exception that
  calling it with no argument raises, if any, and by its \<open>execute\<close> method.
\<close>

datatype operation_class =
    Operation
  | Addition
  | Subtraction
  | Multiplication
  | Division
  | Power
  | Root
  | UserDefined string bool "error option" "decimal \<Rightarrow> decimal \<Rightarrow> error + decimal"

text \<open>
  An instance has no fields; what it can do is the \<open>execute\<close> method of its class.  There
  is no instance of the abstract base.
\<close>

datatype implementation =
    AdditionObject
  | SubtractionObject
  | MultiplicationObject
  | DivisionObject
  | PowerObject
  | RootObject
  | UserObject string "decimal \<Rightarrow> decimal \<Rightarrow> error + decimal"

text \<open>
  An object is known by its identity.  Identities are given out in order of allocation:
  with \<open>h\<close> objects allocated so far, the identities in use are those below \<open>h\<close>.
\<close>

record operation =
  identity :: nat
  implementation :: implementation

definition Addition_execute :: "runtime \<Rightarrow> decimal \<Rightarrow> decimal \<Rightarrow> error + decimal" where
  "Addition_execute rt a b = dec_add (ctx rt) a b"

definition Subtraction_execute :: "runtime \<Rightarrow> decimal \<Rightarrow> decimal \<Rightarrow> error + decimal" where
  "Subtraction_execute rt a b = dec_sub (ctx rt) a b"

definition Multiplication_execute :: "runtime \<Rightarrow> decimal \<Rightarrow> decimal \<Rightarrow> error + decimal" where
  "Multiplication_execute rt a b = dec_mul (ctx rt) a b"

text \<open>
  \<open>Division.validate_operands\<close> has a docstring (\<open>Raises: ValidationError: If the divisor is
  zero\<close>) and no statement: it returns \<open>None\<close> for every pair of operands, and
  \<open>Division.execute\<close> does not call it.
\<close>

definition Division_validate_operands :: "decimal \<Rightarrow> decimal \<Rightarrow> error + unit" where
  "Division_validate_operands a b = Inr ()"

definition Division_execute :: "runtime \<Rightarrow> decimal \<Rightarrow> decimal \<Rightarrow> error + decimal" where
  "Division_execute rt a b = dec_div (ctx rt) a b"

text \<open>\<open>Power.execute\<close>: \<open>Decimal(pow(float(a), float(b)))\<close>, the arguments evaluated in order.\<close>

definition Power_execute :: "runtime \<Rightarrow> decimal \<Rightarrow> decimal \<Rightarrow> error + decimal" where
  "Power_execute rt a b =
     (case float_of_decimal a of
        Inl err \<Rightarrow> Inl err
      | Inr fa \<Rightarrow>
          (case float_of_decimal b of
             Inl err \<Rightarrow> Inl err
           | Inr fb \<Rightarrow>
               (case float_pow rt fa fb of
                  Inl err \<Rightarrow> Inl err
                | Inr r \<Rightarrow> decimal_of_pow r)))"

text \<open>
  \<open>Root.execute\<close>: \<open>Decimal(pow(float(a), 1 / float(b)))\<close>; \<open>float(a)\<close> is evaluated before
  \<open>1 / float(b)\<close>.
\<close>

definition Root_execute :: "runtime \<Rightarrow> decimal \<Rightarrow> decimal \<Rightarrow> error + decimal" where
  "Root_execute rt a b =
     (case float_of_decimal a of
        Inl err \<Rightarrow> Inl err
      | Inr fa \<Rightarrow>
          (case float_of_decimal b of
             Inl err \<Rightarrow> Inl err
           | Inr fb \<Rightarrow>
               (case float_reciprocal fb of
                  Inl err \<Rightarrow> Inl err
                | Inr w \<Rightarrow>
                    (case float_pow rt fa w of
                       Inl err \<Rightarrow> Inl err
                     | Inr r \<Rightarrow> decimal_of_pow r))))"

text \<open>The call \<open>op.execute(a, b)\<close> on an instance of a class: dynamic dispatch.\<close>

fun execute :: "runtime \<Rightarrow> implementation \<Rightarrow> decimal \<Rightarrow> decimal \<Rightarrow> error + decimal" where
  "execute rt AdditionObject a b = Addition_execute rt a b"
| "execute rt SubtractionObject a b = Subtraction_execute rt a b"
| "execute rt MultiplicationObject a b = Multiplication_execute rt a b"
| "execute rt DivisionObject a b = Division_execute rt a b"
| "execute rt PowerObject a b = Power_execute rt a b"
| "execute rt RootObject a b = Root_execute rt a b"
| "execute rt (UserObject n f) a b = f a b"

section \<open>OperationFactory\<close>

text \<open>The class attribute \<open>_operations\<close>: a dictionary from names to operation classes.\<close>

type_synonym registry = "string \<rightharpoonup> operation_class"

definition default_operations :: registry where
  "default_operations =
     [''add'' \<mapsto> Addition, ''subtract'' \<mapsto> Subtraction, ''multiply'' \<mapsto> Multiplication,
      ''divide'' \<mapsto> Division, ''power'' \<mapsto> Power, ''root'' \<mapsto> Root]"

text \<open>
  What a caller can pass as \<open>operation_class\<close>: a subclass of \<open>Operation\<close>, or any other
  object (a class that does not inherit from \<open>Operation\<close>, for which \<open>issubclass\<close> is false,
  or an object that is no class, for which \<open>issubclass\<close> itself raises \<open>TypeError\<close>).
\<close>

datatype py_object = OperationSubclass operation_class | OtherObject

fun issubclass_Operation :: "py_object \<Rightarrow> bool" where
  "issubclass_Operation (OperationSubclass c) = True"
| "issubclass_Operation OtherObject = False"

definition register_operation :: "registry \<Rightarrow> string \<Rightarrow> py_object \<Rightarrow> error + registry" where
  "register_operation ops name operation_class =
     (if \<not> issubclass_Operation operation_class then Inl TypeError
      else case operation_class of
             OperationSubclass c \<Rightarrow> Inr (ops(lower name \<mapsto> c))
           | OtherObject \<Rightarrow> Inl TypeError)"

text \<open>\<open>bool(operation_class)\<close> for a class: what \<open>if not operation_class\<close> tests.\<close>

fun truth_value :: "operation_class \<Rightarrow> bool" where
  "truth_value (UserDefined n t c f) = t"
| "truth_value c = True"

text \<open>
  \<open>operation_class()\<close>: the abstract base cannot be instantiated (\<open>TypeError\<close>); a class of
  \<open>operations.py\<close> gives an instance; a user's class gives an instance or raises what its
  constructor raises, for instance \<open>TypeError\<close> when \<open>__init__\<close> needs arguments.
\<close>

fun construct :: "operation_class \<Rightarrow> error + implementation" where
  "construct Operation = Inl TypeError"
| "construct Addition = Inr AdditionObject"
| "construct Subtraction = Inr SubtractionObject"
| "construct Multiplication = Inr MultiplicationObject"
| "construct Division = Inr DivisionObject"
| "construct Power = Inr PowerObject"
| "construct Root = Inr RootObject"
| "construct (UserDefined n t c f) =
     (case c of Some err \<Rightarrow> Inl err | None \<Rightarrow> Inr (UserObject n f))"

text \<open>
  \<open>create_operation\<close>: \<open>operation_class = _operations.get(operation_type.lower())\<close>, which
  is \<open>None\<close> for a name that is no key; \<open>if not operation_class: raise ValueError("Unknown
  operation: ...")\<close>; \<open>return operation_class()\<close>.  With \<open>h\<close> objects allocated so far, the
  new instance gets the identity \<open>h\<close>, and the function returns it with the new count.
\<close>

definition create_operation :: "registry \<Rightarrow> nat \<Rightarrow> string \<Rightarrow> error + operation \<times> nat" where
  "create_operation ops h operation_type =
     (let operation_class = ops (lower operation_type) in
      case operation_class of
        None \<Rightarrow> Inl ValueError
      | Some c \<Rightarrow>
          if \<not> truth_value c then Inl ValueError
          else (case construct c of
                  Inl err \<Rightarrow> Inl err
                | Inr inst \<Rightarrow> Inr (\<lparr>identity = h, implementation = inst\<rparr>, Suc h)))"

section \<open>Calculation, CalculatorMemento and the Calculator engine\<close>

text \<open>
  \<open>app/calculation.py\<close>, \<open>app/calculator_memento.py\<close> and \<open>app/calculator.py\<close> are not among
  the source files; only their tests are.  The definitions of this section follow the
  specification (sections 3, 4.3, 4.4 and 4.5).  A timestamp is a reading of the clock,
  passed in where the code would call \<open>datetime.now()\<close>.
\<close>

type_synonym timestamp = nat

record calculation =
  operation :: string
  operand1 :: decimal
  operand2 :: decimal
  result :: decimal
  timestamp :: timestamp

text \<open>
  Modelled from the spec: the constructor of \<open>Calculation\<close> (\<open>app/calculation.py\<close> is
  missing).  "Constructed with operation name, operand1, operand2; computes and stores result
  immediately by invoking the matching Operation via the Registry.  Fails with
  \<open>OperationError\<close>-kind if the Registry lookup fails or execute raises."  The lookup is a
  parameter: \<open>create_operation\<close> on the registry of the moment, up to the \<open>execute\<close> method
  of the instance it returns.
\<close>

definition new_calculation ::
  "(string \<Rightarrow> error + implementation) \<Rightarrow> runtime \<Rightarrow> timestamp \<Rightarrow> string \<Rightarrow> decimal \<Rightarrow> decimal
     \<Rightarrow> error + calculation" where
  "new_calculation lookup rt now name a b =
     (case lookup name of
        Inl err \<Rightarrow> Inl OperationError
      | Inr opn \<Rightarrow>
          (case execute rt opn a b of
             Inl err \<Rightarrow> Inl OperationError
           | Inr r \<Rightarrow>
               Inr \<lparr>operation = name, operand1 = a, operand2 = b, result = r, timestamp = now\<rparr>))"

text \<open>
  The lookup through the factory: \<open>OperationFactory.create_operation(name)\<close> with the
  registry \<open>ops\<close> and \<open>h\<close> objects allocated, keeping the \<open>execute\<close> method of the instance.
\<close>

definition registry_lookup :: "registry \<Rightarrow> nat \<Rightarrow> string \<Rightarrow> error + implementation" where
  "registry_lookup ops h name =
     (case create_operation ops h name of
        Inl err \<Rightarrow> Inl err
      | Inr (obj, h') \<Rightarrow> Inr (implementation obj))"

text \<open>
  The string encodings that serialization relies on and that belong to the Python library:
  \<open>str\<close> and \<open>Decimal\<close> on decimals, \<open>isoformat\<close> and \<open>fromisoformat\<close> on timestamps.  A
  parser returns \<open>None\<close> on malformed text.
\<close>

record codec =
  str_decimal :: "decimal \<Rightarrow> string"
  parse_decimal :: "string \<Rightarrow> decimal option"
  isoformat :: "timestamp \<Rightarrow> string"
  fromisoformat :: "string \<Rightarrow> timestamp option"

text \<open>
  Modelled from the spec: \<open>Calculation.to_dict\<close> (\<open>app/calculation.py\<close> is missing).
  "\<open>to_dict()\<close>: mapping with string-encoded operation name, operands, result, ISO-8601
  timestamp."
\<close>

definition calculation_to_dict :: "codec \<Rightarrow> calculation \<Rightarrow> (string \<rightharpoonup> string)" where
  "calculation_to_dict cd c =
     [''operation'' \<mapsto> operation c,
      ''operand1'' \<mapsto> str_decimal cd (operand1 c),
      ''operand2'' \<mapsto> str_decimal cd (operand2 c),
      ''result'' \<mapsto> str_decimal cd (result c),
      ''timestamp'' \<mapsto> isoformat cd (timestamp c)]"

text \<open>A field of a mapping that must be present and must parse.\<close>

definition field :: "(string \<rightharpoonup> string) \<Rightarrow> string \<Rightarrow> (string \<Rightarrow> 'a option) \<Rightarrow> error + 'a" where
  "field d key parse =
     (case d key of
        None \<Rightarrow> Inl ValidationError
      | Some text \<Rightarrow> (case parse text of None \<Rightarrow> Inl ValidationError | Some v \<Rightarrow> Inr v))"

text \<open>
  Modelled from the spec: \<open>Calculation.from_dict\<close> (\<open>app/calculation.py\<close> is missing).
  "\<open>from_dict(mapping)\<close>: reconstructs a Calculation; fails with \<open>ValidationError\<close>-kind on
  missing/malformed fields."  Reconstruction goes through the constructor, which computes
  the result again; the timestamp is the stored one.
\<close>

definition calculation_from_dict ::
  "codec \<Rightarrow> (string \<Rightarrow> error + implementation) \<Rightarrow> runtime \<Rightarrow> (string \<rightharpoonup> string)
     \<Rightarrow> error + calculation" where
  "calculation_from_dict cd lookup rt d =
     (case field d ''operation'' Some of
        Inl err \<Rightarrow> Inl err
      | Inr name \<Rightarrow>
     (case field d ''operand1'' (parse_decimal cd) of
        Inl err \<Rightarrow> Inl err
      | Inr a \<Rightarrow>
     (case field d ''operand2'' (parse_decimal cd) of
        Inl err \<Rightarrow> Inl err
      | Inr b \<Rightarrow>
     (case field d ''result'' (parse_decimal cd) of
        Inl err \<Rightarrow> Inl err
      | Inr saved_result \<Rightarrow>
     (case field d ''timestamp'' (fromisoformat cd) of
        Inl err \<Rightarrow> Inl err
      | Inr ts \<Rightarrow> new_calculation lookup rt ts name a b)))))"

text \<open>
  Modelled from the spec: \<open>CalculatorMemento\<close> and its \<open>to_dict\<close> and \<open>from_dict\<close>
  (\<open>app/calculator_memento.py\<close> is missing).  "fields {history: ordered sequence of
  Calculation, timestamp}"; "\<open>to_dict()\<close>: {history: [calc.to_dict() for each], timestamp:
  iso8601}"; "\<open>from_dict(mapping)\<close>: reconstructs history list (each entry via
  Calculation.from_dict) and parses timestamp; fails with \<open>ValidationError\<close>-kind on malformed
  structure."  A key of the mapping that is absent is \<open>None\<close>.
\<close>

record memento =
  m_history :: "calculation list"
  m_timestamp :: timestamp

record memento_dict =
  d_history :: "(string \<rightharpoonup> string) list option"
  d_timestamp :: "string option"

definition memento_to_dict :: "codec \<Rightarrow> memento \<Rightarrow> memento_dict" where
  "memento_to_dict cd m =
     \<lparr>d_history = Some (map (calculation_to_dict cd) (m_history m)),
      d_timestamp = Some (isoformat cd (m_timestamp m))\<rparr>"

fun calculations_from_dicts ::
  "codec \<Rightarrow> (string \<Rightarrow> error + implementation) \<Rightarrow> runtime \<Rightarrow> (string \<rightharpoonup> string) list
     \<Rightarrow> error + calculation list" where
  "calculations_from_dicts cd lookup rt [] = Inr []"
| "calculations_from_dicts cd lookup rt (d # ds) =
     (case calculation_from_dict cd lookup rt d of
        Inl err \<Rightarrow> Inl err
      | Inr c \<Rightarrow>
          (case calculations_from_dicts cd lookup rt ds of
             Inl err \<Rightarrow> Inl err
           | Inr cs \<Rightarrow> Inr (c # cs)))"

definition memento_from_dict ::
  "codec \<Rightarrow> (string \<Rightarrow> error + implementation) \<Rightarrow> runtime \<Rightarrow> memento_dict \<Rightarrow> error + memento" where
  "memento_from_dict cd lookup rt d =
     (case d_history d of
        None \<Rightarrow> Inl ValidationError
      | Some ds \<Rightarrow>
          (case calculations_from_dicts cd lookup rt ds of
             Inl err \<Rightarrow> Inl err
           | Inr h \<Rightarrow>
               (case d_timestamp d of
                  None \<Rightarrow> Inl ValidationError
                | Some text \<Rightarrow>
                    (case fromisoformat cd text of
                       None \<Rightarrow> Inl ValidationError
                     | Some ts \<Rightarrow> Inr \<lparr>m_history = h, m_timestamp = ts\<rparr>))))"

text \<open>
  Modelled from the spec: the state of the Calculator engine (\<open>app/calculator.py\<close> is
  missing).  "{history: ordered sequence of Calculation, undo stack: ordered sequence of
  CalculatorMemento (most-recent-last), redo stack: same shape, observers}".  An observer
  is its \<open>notify\<close> capability, which returns the exception it raises, if any.
\<close>

record calculator =
  history :: "calculation list"
  undo_stack :: "memento list"
  redo_stack :: "memento list"
  observers :: "(calculation \<Rightarrow> error option) list"

text \<open>An operand as the caller supplies it: numeric input, or anything else.\<close>

datatype operand_input = Numeric decimal | NonNumeric

fun validate_number :: "operand_input \<Rightarrow> error + decimal" where
  "validate_number (Numeric d) = Inr d"
| "validate_number NonNumeric = Inl ValidationError"

fun notify_observers :: "(calculation \<Rightarrow> error option) list \<Rightarrow> calculation \<Rightarrow> error option" where
  "notify_observers [] c = None"
| "notify_observers (notify # rest) c =
     (case notify c of Some err \<Rightarrow> Some err | None \<Rightarrow> notify_observers rest c)"

text \<open>
  Modelled from the spec: \<open>Calculator.perform_operation\<close> (\<open>app/calculator.py\<close> is missing).
  "validates/parses operands to arbitrary-precision decimal (fails with
  \<open>ValidationError\<close>-kind on non-numeric input), creates a Calculation (may raise
  \<open>OperationError\<close>), pushes a memento of the pre-operation history onto the undo stack,
  appends the Calculation to history, clears the redo stack, notifies all observers with the
  new Calculation, returns the result."  The function returns the state after the call and
  the outcome; a failure before the Calculation exists leaves the state unchanged.
\<close>

definition perform_operation ::
  "(string \<Rightarrow> error + implementation) \<Rightarrow> runtime \<Rightarrow> timestamp \<Rightarrow> calculator
     \<Rightarrow> string \<Rightarrow> operand_input \<Rightarrow> operand_input \<Rightarrow> calculator \<times> (error + decimal)" where
  "perform_operation lookup rt now eng operation_name x y =
     (case validate_number x of
        Inl err \<Rightarrow> (eng, Inl err)
      | Inr a \<Rightarrow>
          (case validate_number y of
             Inl err \<Rightarrow> (eng, Inl err)
           | Inr b \<Rightarrow>
               (case new_calculation lookup rt now operation_name a b of
                  Inl err \<Rightarrow> (eng, Inl err)
                | Inr c \<Rightarrow>
                    let eng' = eng
                          \<lparr>undo_stack :=
                             undo_stack eng @ [\<lparr>m_history = history eng, m_timestamp = now\<rparr>],
                           history := history eng @ [c],
                           redo_stack := []\<rparr>
                    in (case notify_observers (observers eng) c of
                          Some err \<Rightarrow> (eng', Inl err)
                        | None \<Rightarrow> (eng', Inr (result c))))))"

text \<open>
  Modelled from the spec: \<open>Calculator.undo\<close> and \<open>Calculator.redo\<close> (\<open>app/calculator.py\<close> is
  missing).  "\<open>undo()\<close>: fails with a 'nothing to undo' signal if undo stack empty; otherwise
  pushes a memento of current history onto redo stack, pops the most recent memento from
  undo stack and restores history from it.  \<open>redo()\<close>: mirror of undo using the redo stack."
  \<open>None\<close> is the signal.
\<close>

definition undo :: "timestamp \<Rightarrow> calculator \<Rightarrow> calculator option" where
  "undo now eng =
     (if undo_stack eng = [] then None
      else Some (eng
             \<lparr>redo_stack := redo_stack eng @ [\<lparr>m_history = history eng, m_timestamp = now\<rparr>],
              history := m_history (last (undo_stack eng)),
              undo_stack := butlast (undo_stack eng)\<rparr>))"

definition redo :: "timestamp \<Rightarrow> calculator \<Rightarrow> calculator option" where
  "redo now eng =
     (if redo_stack eng = [] then None
      else Some (eng
             \<lparr>undo_stack := undo_stack eng @ [\<lparr>m_history = history eng, m_timestamp = now\<rparr>],
              history := m_history (last (redo_stack eng)),
              redo_stack := butlast (redo_stack eng)\<rparr>))"

text \<open>Modelled from the spec: \<open>clear_history\<close> "empties history, undo stack, redo stack".\<close>

definition clear_history :: "calculator \<Rightarrow> calculator" where
  "clear_history eng = eng\<lparr>history := [], undo_stack := [], redo_stack := []\<rparr>"

text \<open>
  The states an engine can be in: the empty engine with any observers, and every state a
  command leads to from there.
\<close>

inductive reachable ::
  "(string \<Rightarrow> error + implementation) \<Rightarrow> runtime \<Rightarrow> calculator \<Rightarrow> bool"
  for lookup :: "string \<Rightarrow> error + implementation" and rt :: runtime where
  initial: "reachable lookup rt \<lparr>history = [], undo_stack = [], redo_stack = [], observers = obs\<rparr>"
| performed: "reachable lookup rt eng \<Longrightarrow>
     reachable lookup rt (fst (perform_operation lookup rt now eng operation_name x y))"
| undone: "reachable lookup rt eng \<Longrightarrow> undo now eng = Some eng' \<Longrightarrow> reachable lookup rt eng'"
| redone: "reachable lookup rt eng \<Longrightarrow> redo now eng = Some eng' \<Longrightarrow> reachable lookup rt eng'"
| cleared: "reachable lookup rt eng \<Longrightarrow> reachable lookup rt (clear_history eng)"

section \<open>Division by zero\<close>

text \<open>
  C1.  The claim: for every operand \<open>a\<close>, \<open>Division.execute(a, 0)\<close> fails with a
  \<open>ValidationError\<close>.  The code: \<open>Division.execute\<close> returns \<open>a / b\<close> with no check of
  its own, so a zero divisor raises what the decimal division raises, \<open>DivisionByZero\<close> for
  a nonzero finite dividend and \<open>InvalidOperation\<close> for 0/0; \<open>validate_operands\<close>, whose
  docstring promises the \<open>ValidationError\<close>, accepts the zero divisor.
\<close>

theorem division_by_zero_raises_decimal_signal:
  "Division_execute rt (Finite s (Suc c) e) (Finite s' 0 e') = Inl DecimalDivisionByZero
   \<and> Division_execute rt (Finite s 0 e) (Finite s' 0 e') = Inl DecimalInvalidOperation
   \<and> Division_validate_operands (Finite s c e) (Finite s' 0 e') = Inr ()"
  by (simp add: Division_execute_def Division_validate_operands_def)

section \<open>The factory\<close>

text \<open>
  C5.  The claim: for every name, \<open>create_operation\<close> returns a fresh instance of the class
  registered under the lower-cased name, and fails with the unknown-operation error when
  there is none.  It fails for a registered class that cannot be instantiated:
  \<open>register_operation\<close> accepts the abstract base \<open>Operation\<close>, and \<open>create_operation\<close> then
  raises \<open>TypeError\<close>, which is neither an instance nor the unknown-operation error.
\<close>

theorem create_operation_abstract_class_counterexample:
  "register_operation default_operations ''base'' (OperationSubclass Operation)
     = Inr (default_operations(''base'' \<mapsto> Operation))
   \<and> (default_operations(''base'' \<mapsto> Operation)) (lower ''base'') = Some Operation
   \<and> create_operation (default_operations(''base'' \<mapsto> Operation)) 0 ''base'' = Inl TypeError"
  by (simp add: register_operation_def create_operation_def lower_def lower_char_def)

text \<open>
  C5, amended.  \<open>create_operation\<close> looks the lower-cased name up.  When the class registered
  under it is true as an object and its constructor succeeds, as for each of the six classes
  of \<open>operations.py\<close>, the result is an instance of that class whose identity was not in use
  before the call and is in use after it; when the constructor raises, its exception is the
  outcome.  A name with no entry fails with the \<open>ValueError\<close> that reports the unknown
  operation.  Two names that differ only in case give the same outcome.
\<close>

theorem create_operation_by_lowercase_name:
  "(ops (lower name) = Some c \<and> truth_value c \<and> construct c = Inr inst \<longrightarrow>
      (\<exists>obj h'. create_operation ops h name = Inr (obj, h')
         \<and> implementation obj = inst \<and> \<not> identity obj < h \<and> identity obj < h'))
   \<and> (c = Addition \<or> c = Subtraction \<or> c = Multiplication \<or> c = Division \<or> c = Power \<or> c = Root
        \<longrightarrow> truth_value c \<and> (\<exists>inst. construct c = Inr inst))
   \<and> (ops (lower name) = Some c \<and> truth_value c \<and> construct c = Inl err \<longrightarrow>
        create_operation ops h name = Inl err)
   \<and> (ops (lower name) = None \<longrightarrow> create_operation ops h name = Inl ValueError)
   \<and> (lower name' = lower name \<longrightarrow> create_operation ops h name' = create_operation ops h name)"
  by (auto simp: create_operation_def)

theorem create_operation_by_lowercase_name_witness:
  "default_operations (lower ''Add'') = Some Addition \<and> truth_value Addition
   \<and> construct Addition = Inr AdditionObject
   \<and> create_operation default_operations 7 ''Add''
       = Inr (\<lparr>identity = 7, implementation = AdditionObject\<rparr>, 8)
   \<and> (default_operations(''base'' \<mapsto> Operation)) (lower ''base'') = Some Operation
   \<and> truth_value Operation \<and> construct Operation = Inl TypeError
   \<and> create_operation (default_operations(''base'' \<mapsto> Operation)) 7 ''base'' = Inl TypeError
   \<and> default_operations (lower ''bogus'') = None
   \<and> create_operation default_operations 7 ''bogus'' = Inl ValueError
   \<and> lower ''ADD'' = lower ''Add''
   \<and> create_operation default_operations 7 ''ADD'' = create_operation default_operations 7 ''Add''"
proof -
  have looked_up: "default_operations (lower ''Add'') = Some Addition"
    by (simp add: default_operations_def lower_def lower_char_def)
  have unknown: "default_operations (lower ''bogus'') = None"
    by (simp add: default_operations_def lower_def lower_char_def)
  have abstract: "(default_operations(''base'' \<mapsto> Operation)) (lower ''base'') = Some Operation"
    by (simp add: lower_def lower_char_def)
  have same: "lower ''ADD'' = lower ''Add''"
    by (simp add: lower_def lower_char_def)
  have created: "create_operation default_operations 7 ''Add''
       = Inr (\<lparr>identity = 7, implementation = AdditionObject\<rparr>, 8)"
    using looked_up by (simp add: create_operation_def)
  have raised:
    "create_operation (default_operations(''base'' \<mapsto> Operation)) 7 ''base'' = Inl TypeError"
    using create_operation_by_lowercase_name
        [of "default_operations(''base'' \<mapsto> Operation)" "''base''" Operation AdditionObject 7
          TypeError "''base''", THEN conjunct2, THEN conjunct2, THEN conjunct1]
      abstract
    by simp
  have failed: "create_operation default_operations 7 ''bogus'' = Inl ValueError"
    using create_operation_by_lowercase_name
        [of default_operations "''bogus''" Addition AdditionObject 7 TypeError "''bogus''",
          THEN conjunct2, THEN conjunct2, THEN conjunct2, THEN conjunct1]
      unknown
    by simp
  have either:
    "create_operation default_operations 7 ''ADD'' = create_operation default_operations 7 ''Add''"
    using create_operation_by_lowercase_name
        [of default_operations "''Add''" Addition AdditionObject 7 TypeError "''ADD''",
          THEN conjunct2, THEN conjunct2, THEN conjunct2, THEN conjunct2]
      same
    by simp
  show ?thesis
    using looked_up unknown abstract same created raised failed either by simp
qed

text \<open>
  C6.  \<open>register_operation\<close> fails with \<open>TypeError\<close> for an object that is no subclass of
  \<open>Operation\<close>; for a subclass it stores the class under the lower-cased name; registering
  again under a name that lower-cases to the same key replaces the entry, without an
  error, and leaves every other key as it was.
\<close>

theorem register_operation_contract:
  "(\<not> issubclass_Operation obj \<longrightarrow> register_operation ops name obj = Inl TypeError)
   \<and> (issubclass_Operation obj \<longrightarrow>
        (\<exists>c. obj = OperationSubclass c
             \<and> register_operation ops name obj = Inr (ops(lower name \<mapsto> c))))
   \<and> (register_operation ops name (OperationSubclass c1) = Inr ops1
        \<and> register_operation ops1 name2 (OperationSubclass c2) = Inr ops2
        \<and> lower name2 = lower name
        \<longrightarrow> ops2 (lower name) = Some c2
            \<and> (\<forall>k. k \<noteq> lower name \<longrightarrow> ops2 k = ops k))"
  by (cases obj) (auto simp: register_operation_def)

theorem register_operation_contract_witness:
  "\<not> issubclass_Operation OtherObject
   \<and> register_operation default_operations ''ADD'' OtherObject = Inl TypeError
   \<and> issubclass_Operation (OperationSubclass (UserDefined ''Modulus'' True None (\<lambda>a b. Inr a)))
   \<and> register_operation default_operations ''Modulus''
         (OperationSubclass (UserDefined ''Modulus'' True None (\<lambda>a b. Inr a)))
       = Inr (default_operations(''modulus'' \<mapsto> UserDefined ''Modulus'' True None (\<lambda>a b. Inr a)))
   \<and> register_operation default_operations ''ADD'' (OperationSubclass Subtraction)
       = Inr (default_operations(''add'' \<mapsto> Subtraction))
   \<and> register_operation (default_operations(''add'' \<mapsto> Subtraction)) ''Add''
         (OperationSubclass Multiplication)
       = Inr (default_operations(''add'' \<mapsto> Multiplication))
   \<and> lower ''Add'' = lower ''ADD''
   \<and> (default_operations(''add'' \<mapsto> Multiplication)) (lower ''ADD'') = Some Multiplication"
proof -
  have refused: "register_operation default_operations ''ADD'' OtherObject = Inl TypeError"
    using register_operation_contract [of OtherObject default_operations "''ADD''", THEN conjunct1]
    by simp
  have stored: "register_operation default_operations ''Modulus''
         (OperationSubclass (UserDefined ''Modulus'' True None (\<lambda>a b. Inr a)))
       = Inr (default_operations(''modulus'' \<mapsto> UserDefined ''Modulus'' True None (\<lambda>a b. Inr a)))"
    by (simp add: register_operation_def lower_def lower_char_def)
  have first: "register_operation default_operations ''ADD'' (OperationSubclass Subtraction)
       = Inr (default_operations(''add'' \<mapsto> Subtraction))"
    by (simp add: register_operation_def lower_def lower_char_def)
  have second: "register_operation (default_operations(''add'' \<mapsto> Subtraction)) ''Add''
         (OperationSubclass Multiplication)
       = Inr (default_operations(''add'' \<mapsto> Multiplication))"
    by (simp add: register_operation_def lower_def lower_char_def)
  have same: "lower ''Add'' = lower ''ADD''"
    by (simp add: lower_def lower_char_def)
  have overwritten:
    "(default_operations(''add'' \<mapsto> Multiplication)) (lower ''ADD'') = Some Multiplication"
    using register_operation_contract [of _ default_operations "''ADD''" Subtraction
        "default_operations(''add'' \<mapsto> Subtraction)" "''Add''" Multiplication
        "default_operations(''add'' \<mapsto> Multiplication)", THEN conjunct2, THEN conjunct2]
      first second same
    by blast
  show ?thesis
    using refused stored first second same overwritten by simp
qed

section \<open>The undo and redo stacks\<close>

text \<open>The addition of 2 and 3 through the factory, in the default context.\<close>

lemma add_2_3:
  "new_calculation (registry_lookup default_operations 0)
     \<lparr>ctx = default_context, libm_pow = (\<lambda>x y. Inl OverflowError), complex_pow = (\<lambda>x y. None)\<rparr>
     now ''add'' (Finite False 2 0) (Finite False 3 0)
   = Inr \<lparr>operation = ''add'', operand1 = Finite False 2 0, operand2 = Finite False 3 0,
          result = Finite False 5 0, timestamp = now\<rparr>"
  by (simp add: new_calculation_def registry_lookup_def create_operation_def
      default_operations_def lower_def lower_char_def Addition_execute_def default_context_def
      ndigits_def compute_floorlog round_half_even_def Etop_def Etiny_def signed_def Let_def)

text \<open>
  C2.  A call of \<open>perform_operation\<close> that succeeds leaves the redo stack empty, whatever the
  state it starts from, so a redo right after it gives the nothing-to-redo signal.
\<close>

theorem perform_operation_clears_redo_stack:
  "perform_operation lookup rt now eng operation_name x y = (eng', Inr r)
   \<Longrightarrow> redo_stack eng' = [] \<and> redo t eng' = None"
  by (auto simp: perform_operation_def redo_def Let_def split: sum.splits option.splits)

theorem perform_operation_clears_redo_stack_witness:
  "reachable (registry_lookup default_operations 0)
     \<lparr>ctx = default_context, libm_pow = (\<lambda>x y. Inl OverflowError), complex_pow = (\<lambda>x y. None)\<rparr>
     \<lparr>history = [], undo_stack = [],
      redo_stack = [\<lparr>m_history = [\<lparr>operation = ''add'', operand1 = Finite False 2 0,
          operand2 = Finite False 3 0, result = Finite False 5 0, timestamp = 1\<rparr>], m_timestamp = 2\<rparr>],
      observers = []\<rparr>
   \<and> perform_operation (registry_lookup default_operations 0)
     \<lparr>ctx = default_context, libm_pow = (\<lambda>x y. Inl OverflowError), complex_pow = (\<lambda>x y. None)\<rparr>
     3
     \<lparr>history = [], undo_stack = [],
      redo_stack = [\<lparr>m_history = [\<lparr>operation = ''add'', operand1 = Finite False 2 0,
          operand2 = Finite False 3 0, result = Finite False 5 0, timestamp = 1\<rparr>], m_timestamp = 2\<rparr>],
      observers = []\<rparr>
     ''add'' (Numeric (Finite False 2 0)) (Numeric (Finite False 3 0))
     = (\<lparr>history = [\<lparr>operation = ''add'', operand1 = Finite False 2 0,
          operand2 = Finite False 3 0, result = Finite False 5 0, timestamp = 3\<rparr>],
        undo_stack = [\<lparr>m_history = [], m_timestamp = 3\<rparr>], redo_stack = [], observers = []\<rparr>,
        Inr (Finite False 5 0))
   \<and> redo_stack \<lparr>history = [\<lparr>operation = ''add'', operand1 = Finite False 2 0,
          operand2 = Finite False 3 0, result = Finite False 5 0, timestamp = 3\<rparr>],
        undo_stack = [\<lparr>m_history = [], m_timestamp = 3\<rparr>], redo_stack = [], observers = []\<rparr> = []
   \<and> redo 4 \<lparr>history = [\<lparr>operation = ''add'', operand1 = Finite False 2 0,
          operand2 = Finite False 3 0, result = Finite False 5 0, timestamp = 3\<rparr>],
        undo_stack = [\<lparr>m_history = [], m_timestamp = 3\<rparr>], redo_stack = [], observers = []\<rparr> = None"
proof -
  let ?lookup = "registry_lookup default_operations 0"
  let ?rt = "\<lparr>ctx = default_context, libm_pow = (\<lambda>x y. Inl OverflowError),
               complex_pow = (\<lambda>x y. None)\<rparr>"
  let ?c = "\<lambda>now. \<lparr>operation = ''add'', operand1 = Finite False 2 0, operand2 = Finite False 3 0,
                  result = Finite False 5 0, timestamp = now\<rparr>"
  let ?E0 = "\<lparr>history = [], undo_stack = [], redo_stack = [], observers = []\<rparr>"
  let ?E1 = "\<lparr>history = [?c 1], undo_stack = [\<lparr>m_history = [], m_timestamp = 1\<rparr>],
               redo_stack = [], observers = []\<rparr>"
  let ?E2 = "\<lparr>history = [], undo_stack = [],
               redo_stack = [\<lparr>m_history = [?c 1], m_timestamp = 2\<rparr>], observers = []\<rparr>"
  let ?E3 = "\<lparr>history = [?c 3], undo_stack = [\<lparr>m_history = [], m_timestamp = 3\<rparr>],
               redo_stack = [], observers = []\<rparr>"
  have r0: "reachable ?lookup ?rt ?E0"
    by (rule reachable.initial)
  have p1: "perform_operation ?lookup ?rt 1 ?E0 ''add'' (Numeric (Finite False 2 0))
              (Numeric (Finite False 3 0)) = (?E1, Inr (Finite False 5 0))"
    by (simp add: perform_operation_def add_2_3)
  have r1: "reachable ?lookup ?rt ?E1"
    using reachable.performed [OF r0, of 1 "''add''" "Numeric (Finite False 2 0)"
        "Numeric (Finite False 3 0)"] p1
    by simp
  have u2: "undo 2 ?E1 = Some ?E2"
    by (simp add: undo_def)
  have r2: "reachable ?lookup ?rt ?E2"
    by (rule reachable.undone [OF r1 u2])
  have p3: "perform_operation ?lookup ?rt 3 ?E2 ''add'' (Numeric (Finite False 2 0))
              (Numeric (Finite False 3 0)) = (?E3, Inr (Finite False 5 0))"
    by (simp add: perform_operation_def add_2_3)
  have cleared: "redo_stack ?E3 = [] \<and> redo 4 ?E3 = None"
    by (rule perform_operation_clears_redo_stack [OF p3])
  show ?thesis
    using r2 p3 cleared by simp
qed

text \<open>
  C9.  With a non-empty undo stack, \<open>undo\<close> succeeds, restores the history of the popped
  snapshot and pushes the history before the undo onto the redo stack; the \<open>redo\<close> that
  follows succeeds and gives back the history before the undo.  The redo stack and the
  histories on the undo stack are as before too.
\<close>

theorem undo_then_redo_restores_history:
  "undo_stack eng \<noteq> [] \<Longrightarrow>
   \<exists>eng' eng''. undo tu eng = Some eng' \<and> redo tr eng' = Some eng''
     \<and> history eng' = m_history (last (undo_stack eng))
     \<and> m_history (last (redo_stack eng')) = history eng
     \<and> history eng'' = history eng
     \<and> redo_stack eng'' = redo_stack eng
     \<and> map m_history (undo_stack eng'') = map m_history (undo_stack eng)"
proof -
  assume nonempty: "undo_stack eng \<noteq> []"
  let ?eng' = "eng
       \<lparr>redo_stack := redo_stack eng @ [\<lparr>m_history = history eng, m_timestamp = tu\<rparr>],
        history := m_history (last (undo_stack eng)),
        undo_stack := butlast (undo_stack eng)\<rparr>"
  have u: "undo tu eng = Some ?eng'"
    using nonempty by (simp add: undo_def)
  let ?eng'' = "?eng'
       \<lparr>undo_stack := undo_stack ?eng' @ [\<lparr>m_history = history ?eng', m_timestamp = tr\<rparr>],
        history := m_history (last (redo_stack ?eng')),
        redo_stack := butlast (redo_stack ?eng')\<rparr>"
  have r: "redo tr ?eng' = Some ?eng''"
    by (simp add: redo_def)
  have "map m_history (butlast (undo_stack eng)) @ [m_history (last (undo_stack eng))]
        = map m_history (butlast (undo_stack eng) @ [last (undo_stack eng)])"
    by simp
  also have "\<dots> = map m_history (undo_stack eng)"
    using nonempty by simp
  finally have stack: "map m_history (undo_stack ?eng'') = map m_history (undo_stack eng)"
    by simp
  show ?thesis
    using u r stack by (intro exI [of _ ?eng'] exI [of _ ?eng'']) simp
qed

theorem undo_then_redo_restores_history_witness:
  "undo_stack \<lparr>history = [\<lparr>operation = ''add'', operand1 = Finite False 2 0,
          operand2 = Finite False 3 0, result = Finite False 5 0, timestamp = 1\<rparr>],
        undo_stack = [\<lparr>m_history = [], m_timestamp = 1\<rparr>], redo_stack = [], observers = []\<rparr> \<noteq> []
   \<and> undo 2 \<lparr>history = [\<lparr>operation = ''add'', operand1 = Finite False 2 0,
          operand2 = Finite False 3 0, result = Finite False 5 0, timestamp = 1\<rparr>],
        undo_stack = [\<lparr>m_history = [], m_timestamp = 1\<rparr>], redo_stack = [], observers = []\<rparr>
      = Some \<lparr>history = [], undo_stack = [],
          redo_stack = [\<lparr>m_history = [\<lparr>operation = ''add'', operand1 = Finite False 2 0,
            operand2 = Finite False 3 0, result = Finite False 5 0, timestamp = 1\<rparr>],
            m_timestamp = 2\<rparr>],
          observers = []\<rparr>
   \<and> redo 3 \<lparr>history = [], undo_stack = [],
          redo_stack = [\<lparr>m_history = [\<lparr>operation = ''add'', operand1 = Finite False 2 0,
            operand2 = Finite False 3 0, result = Finite False 5 0, timestamp = 1\<rparr>],
            m_timestamp = 2\<rparr>],
          observers = []\<rparr>
      = Some \<lparr>history = [\<lparr>operation = ''add'', operand1 = Finite False 2 0,
            operand2 = Finite False 3 0, result = Finite False 5 0, timestamp = 1\<rparr>],
          undo_stack = [\<lparr>m_history = [], m_timestamp = 3\<rparr>], redo_stack = [], observers = []\<rparr>"
proof -
  let ?c = "\<lparr>operation = ''add'', operand1 = Finite False 2 0, operand2 = Finite False 3 0,
             result = Finite False 5 0, timestamp = 1\<rparr>"
  let ?E1 = "\<lparr>history = [?c], undo_stack = [\<lparr>m_history = [], m_timestamp = 1\<rparr>],
               redo_stack = [], observers = []\<rparr>"
  have nonempty: "undo_stack ?E1 \<noteq> []"
    by simp
  obtain eng' eng'' where both: "undo 2 ?E1 = Some eng'" "redo 3 eng' = Some eng''"
      "history eng'' = history ?E1"
    using undo_then_redo_restores_history [OF nonempty, of 2 3] by blast
  have undone: "undo 2 ?E1 = Some \<lparr>history = [], undo_stack = [],
          redo_stack = [\<lparr>m_history = [?c], m_timestamp = 2\<rparr>], observers = []\<rparr>"
    by (simp add: undo_def)
  have redone: "redo 3 \<lparr>history = [], undo_stack = [],
          redo_stack = [\<lparr>m_history = [?c], m_timestamp = 2\<rparr>], observers = []\<rparr>
      = Some \<lparr>history = [?c], undo_stack = [\<lparr>m_history = [], m_timestamp = 3\<rparr>],
          redo_stack = [], observers = []\<rparr>"
    by (simp add: redo_def)
  show ?thesis
    using nonempty both undone redone by simp
qed

section \<open>Root of degree zero\<close>

text \<open>
  C10.  The claim: for every operand \<open>a\<close>, \<open>Root.execute(a, 0)\<close> raises a division-by-zero
  error.  In \<open>pow(float(a), 1 / float(b))\<close> the conversion \<open>float(a)\<close> comes first, and for a
  signalling NaN it raises \<open>ValueError\<close> before the division is reached.
\<close>

theorem root_zero_degree_snan_counterexample:
  "Root_execute
     \<lparr>ctx = default_context, libm_pow = (\<lambda>x y. Inl OverflowError), complex_pow = (\<lambda>x y. None)\<rparr>
     (sNaN False 0) (Finite False 0 0) = Inl ValueError"
  by (simp add: Root_execute_def)

text \<open>
  C10, amended.  For every operand \<open>a\<close> other than a signalling NaN and every zero degree
  \<open>b\<close> (of either sign and any exponent), \<open>Root.execute(a, b)\<close> raises \<open>ZeroDivisionError\<close>:
  \<open>float(b)\<close> is a zero, nothing checks it, and \<open>1 / float(b)\<close> divides by it.
\<close>

theorem root_zero_degree_raises_ZeroDivisionError:
  "\<not> is_snan a \<Longrightarrow> Root_execute rt a (Finite s 0 e) = Inl ZeroDivisionError"
  by (cases a) (simp_all add: Root_execute_def round_to_double_def)

theorem root_zero_degree_raises_ZeroDivisionError_witness:
  "\<not> is_snan (Finite False 4 0)
   \<and> Root_execute
       \<lparr>ctx = default_context, libm_pow = (\<lambda>x y. Inl OverflowError), complex_pow = (\<lambda>x y. None)\<rparr>
       (Finite False 4 0) (Finite False 0 0) = Inl ZeroDivisionError"
  using root_zero_degree_raises_ZeroDivisionError [of "Finite False 4 0"
      "\<lparr>ctx = default_context, libm_pow = (\<lambda>x y. Inl OverflowError), complex_pow = (\<lambda>x y. None)\<rparr>"
      False 0]
  by simp

section \<open>Roots outside the domain\<close>









end
